theory Spec2Isabelle
  imports Main "HOL-Library.Sublist" "HOL-Library.Multiset" "HOL-Library.AList"
begin

section \<open>Data model (src/src/github.py)\<close>

text \<open>
  A \<open>datetime\<close> is modelled as an integer number of microseconds (the resolution of
  Python's \<open>datetime\<close>); only its order and differences are used by the code.
\<close>

type_synonym datetime = int

text \<open>The dataclass \<open>PullRequest\<close>. The field \<open>approves\<close> is a Python list of logins.\<close>

record PullRequest =
  repo :: string
  title :: string
  url :: string
  is_draft :: bool
  created_by :: string
  created_at :: datetime
  approves :: "string list"

text \<open>
  Exceptions as values. \<open>GithubError title description\<close> is the class of that name;
  \<open>FetchException\<close> stands for any other exception raised while fetching (by
  \<open>requests.get\<close>, by \<open>.json()\<close>, by indexing a payload or by \<open>strptime\<close>);
  \<open>RegexError\<close> is \<open>re.error\<close>.
\<close>

datatype error = GithubError string string | FetchException | RegexError

section \<open>Utilities (src/src/utils.py)\<close>

definition pr_is_approved :: "PullRequest \<Rightarrow> string \<Rightarrow> bool" where
  "pr_is_approved pr user \<longleftrightarrow> length (approves pr) \<ge> 2 \<or> user \<in> set (approves pr)"

text \<open>
  \<open>in_place_filter\<close> overwrites the contents of its argument list and returns the removed
  elements: the model returns the pair (new contents of \<open>array\<close>, \<open>removed_elements\<close>).
\<close>

definition in_place_filter :: "'a list \<Rightarrow> ('a \<Rightarrow> bool) \<Rightarrow> 'a list \<times> 'a list" where
  "in_place_filter array predicate =
     (let removed_elements = [x \<leftarrow> array. \<not> predicate x]
      in (filter predicate array, removed_elements))"

section \<open>The ordering and partition step (src/main.py, \<open>__order_filter_prs\<close>)\<close>

text \<open>
  Python's \<open>list.sort(key=..., reverse=...)\<close> is a stable sort; with \<open>reverse=True\<close> it
  reverses the list, sorts it stably in ascending order and reverses the result, so that
  elements with equal keys keep their original order. \<open>sort_key\<close> is a stable insertion
  sort.
\<close>

definition py_sort :: "('a \<Rightarrow> 'k::linorder) \<Rightarrow> bool \<Rightarrow> 'a list \<Rightarrow> 'a list" where
  "py_sort key reverse xs =
     (if reverse then rev (sort_key key (rev xs)) else sort_key key xs)"

text \<open>The contents of \<open>prs\<close> after line 192 (drafts dropped).\<close>

definition non_drafts :: "PullRequest list \<Rightarrow> PullRequest list" where
  "non_drafts prs = filter (\<lambda>pr. \<not> is_draft pr) prs"

text \<open>The contents of \<open>prs\<close> after line 193 (sorted by creation time, newest first).\<close>

definition sorted_by_date :: "PullRequest list \<Rightarrow> PullRequest list" where
  "sorted_by_date prs = py_sort (\<lambda>pr. created_at pr) True (non_drafts prs)"

text \<open>The contents of \<open>prs\<close> after line 194: the sequence that is then partitioned.\<close>

definition ordered_prs :: "string \<Rightarrow> PullRequest list \<Rightarrow> PullRequest list" where
  "ordered_prs user prs =
     py_sort (\<lambda>pr. if created_by pr = user then - 1 else (0::int)) False (sorted_by_date prs)"

text \<open>The result of \<open>__order_filter_prs\<close>: the pair (open, approved).\<close>

definition order_filter_prs ::
  "string \<Rightarrow> PullRequest list \<Rightarrow> PullRequest list \<times> PullRequest list" where
  "order_filter_prs user prs =
     in_place_filter (ordered_prs user prs) (\<lambda>pr. \<not> pr_is_approved pr user)"

section \<open>The GitHub client (src/src/github.py, class \<open>Github\<close>)\<close>

text \<open>
  The JSON payloads, with the fields the code reads. \<open>pj_created_at\<close> is the value of
  \<open>datetime.strptime(pr["created_at"], "%Y-%m-%dT%H:%M:%SZ")\<close>: \<open>None\<close> where it raises.
\<close>

record review_json =
  review_state :: string
  review_user_login :: string

record pr_json =
  pj_url :: string
  pj_head_repo_name :: string
  pj_title :: string
  pj_html_url :: string
  pj_draft :: bool
  pj_user_login :: string
  pj_created_at :: "datetime option"

text \<open>
  The repository listing: \<open>ReposList urls\<close> is a JSON list of objects whose \<open>"url"\<close> fields
  are \<open>urls\<close>; \<open>ReposOther\<close> is any other JSON value (for instance the object GitHub
  answers to bad credentials), on which \<open>r["url"]\<close> raises.
\<close>

datatype repos_json = ReposList "string list" | ReposOther

text \<open>
  The network as seen by one call of \<open>get_prs\<close>: the answer of \<open>requests.get(...).json()\<close>
  for the organisation's repository listing and for each URL; \<open>None\<close> where the request
  or the decoding raises.
\<close>

record network =
  repos_response :: "repos_json option"
  pulls_response :: "string \<Rightarrow> pr_json list option"
  reviews_response :: "string \<Rightarrow> review_json list option"

text \<open>The client's only mutable attribute is \<open>self.repos\<close>.\<close>

record github =
  repos :: "repos_json option"

definition get_pr_approves :: "network \<Rightarrow> string \<Rightarrow> error + string list" where
  "get_pr_approves net pr_url =
     (case reviews_response net (pr_url @ ''/reviews'') of
        None \<Rightarrow> Inl FetchException
      | Some reviews \<Rightarrow>
          (let approves = filter (\<lambda>r. review_state r = ''APPROVED'') reviews
           in Inr (map (\<lambda>r. review_user_login r) approves)))"

text \<open>
  A \<open>Manager().dict()\<close> is a dictionary in insertion order: an association list, where
  \<open>AList.update\<close> replaces the value of a key already present in place and appends a new
  key at the end.
\<close>

type_synonym 'v shared_dict = "(string \<times> 'v) list"

definition build_pr ::
  "network \<Rightarrow> PullRequest shared_dict \<Rightarrow> pr_json \<Rightarrow> error + PullRequest shared_dict" where
  "build_pr net shared_result pr =
     (case pj_created_at pr of
        None \<Rightarrow> Inl FetchException
      | Some t \<Rightarrow>
          (case get_pr_approves net (pj_url pr) of
             Inl e \<Rightarrow> Inl e
           | Inr a \<Rightarrow>
               Inr (AList.update (pj_url pr)
                      \<lparr>repo = pj_head_repo_name pr, title = pj_title pr, url = pj_html_url pr,
                       is_draft = pj_draft pr, created_by = pj_user_login pr,
                       created_at = t, approves = a\<rparr>
                      shared_result)))"

text \<open>
  \<open>Process(target=f, args=(shared, x))\<close>, started and joined. An exception raised by the
  target ends the child process only: \<open>join\<close> returns normally in the parent, which never
  reads the exit code, and the shared dictionary keeps what was written before. The
  children are run here one after the other in the order they are started; the order of
  their writes is otherwise up to the scheduler.
\<close>

definition run_process :: "('s \<Rightarrow> error + 's) \<Rightarrow> 's \<Rightarrow> 's" where
  "run_process target shared =
     (case target shared of Inl e \<Rightarrow> shared | Inr shared' \<Rightarrow> shared')"

definition Github_fetch_prs ::
  "network \<Rightarrow> PullRequest list shared_dict \<Rightarrow> string
     \<Rightarrow> error + PullRequest list shared_dict" where
  "Github_fetch_prs net shared_result repo_url =
     (case pulls_response net (repo_url @ ''/pulls'') of
        None \<Rightarrow> Inl FetchException
      | Some prs \<Rightarrow>
          (let result_matrix =
                 fold (\<lambda>pr m. run_process (\<lambda>m'. build_pr net m' pr) m) prs [];
               result = map snd result_matrix
           in Inr (AList.update repo_url result shared_result)))"

definition github_error :: error where
  "github_error =
     GithubError ''Error getting Pull Requests''
       ''Check you connectivity, github url and access token''"

definition Github_get_prs :: "network \<Rightarrow> github \<Rightarrow> (error + PullRequest list) \<times> github" where
  "Github_get_prs net gh =
     (case (case repos gh of None \<Rightarrow> repos_response net | Some r \<Rightarrow> Some r) of
        None \<Rightarrow> (Inl github_error, gh)
      | Some r \<Rightarrow>
          (let gh' = gh\<lparr>repos := Some r\<rparr>
           in case r of
                ReposOther \<Rightarrow> (Inl github_error, gh')
              | ReposList urls \<Rightarrow>
                  (let result_matrix =
                         fold (\<lambda>u m. run_process (\<lambda>m'. Github_fetch_prs net m' u) m) urls []
                   in (Inr (concat (map snd result_matrix)), gh'))))"

section \<open>The controller and its cache (src/main.py, class \<open>GithubController\<close>)\<close>

text \<open>
  \<open>fetch_calls\<close> is not an attribute of the class: it counts the calls of
  \<open>github_client.get_prs\<close>, so that "no fetch" and "one fetch" can be stated.
\<close>

record controller =
  user :: string
  last_request :: "(datetime \<times> PullRequest list \<times> PullRequest list) option"
  github_client :: github
  fetch_calls :: nat

text \<open>\<open>timedelta(minutes=1)\<close>, in microseconds.\<close>

definition one_minute :: int where
  "one_minute = 60000000"

text \<open>
  \<open>GithubController.__fetch_prs\<close>; \<open>now\<close> is the reading of \<open>datetime.now()\<close> at line 188,
  taken after the fetch.
\<close>

definition Controller_fetch_prs ::
  "network \<Rightarrow> datetime \<Rightarrow> controller
     \<Rightarrow> (error + PullRequest list \<times> PullRequest list) \<times> controller" where
  "Controller_fetch_prs net now c =
     (case Github_get_prs net (github_client c) of
        (Inl e, gh') \<Rightarrow>
          (Inl e, c\<lparr>github_client := gh', fetch_calls := Suc (fetch_calls c)\<rparr>)
      | (Inr prs, gh') \<Rightarrow>
          (let prs_tuple = order_filter_prs (user c) prs
           in (Inr prs_tuple,
               c\<lparr>github_client := gh', fetch_calls := Suc (fetch_calls c),
                 last_request := Some (now, prs_tuple)\<rparr>)))"

text \<open>
  \<open>GithubController.__get_prs\<close>; \<open>now\<close> is the reading of \<open>datetime.now()\<close> at line 182
  and \<open>now_stored\<close> the one at line 188.
\<close>

definition Controller_get_prs ::
  "network \<Rightarrow> datetime \<Rightarrow> datetime \<Rightarrow> controller
     \<Rightarrow> (error + PullRequest list \<times> PullRequest list) \<times> controller" where
  "Controller_get_prs net now now_stored c =
     (case last_request c of
        Some (fetched_at, snapshot) \<Rightarrow>
          if now - fetched_at < one_minute then (Inr snapshot, c)
          else Controller_fetch_prs net now_stored c
      | None \<Rightarrow> Controller_fetch_prs net now_stored c)"

text \<open>The condition of lines 181 and 182 under which \<open>__get_prs\<close> serves the stored snapshot.\<close>

definition cache_fresh :: "datetime \<Rightarrow> controller \<Rightarrow> bool" where
  "cache_fresh now c =
     (case last_request c of
        None \<Rightarrow> False
      | Some (fetched_at, snapshot) \<Rightarrow> now - fetched_at < one_minute)"

section \<open>Result items and the keyword query (src/main.py)\<close>

datatype PrType = OPEN | APPROVED

text \<open>
  \<open>CustomActionEvent.multiselect(pr_type)\<close> returns the member \<open>MULTISELECT\<close> carrying
  \<open>pr_type\<close> as its \<open>multiselect_value\<close>.
\<close>

datatype CustomActionEvent = MULTISELECT PrType | APPROVED_PRS

datatype image =
  GITHUB_LOGO | GITHUB_APPROVED_LOGO | GITHUB_USER_LOGO | GITHUB_USER_APPROVED_LOGO | ERROR_ICON

text \<open>
  \<open>ExtensionCustomAction event pr_url\<close> carries the dictionary with keys \<open>"event"\<close> and,
  where present, \<open>"pr_url"\<close>.
\<close>

datatype action =
  OpenUrlAction string | DoNothingAction | ExtensionCustomAction CustomActionEvent "string option"

record ExtensionResultItem =
  name :: string
  description :: string
  icon :: image
  on_enter :: action
  on_alt_enter :: "action option"

text \<open>Python's \<open>str\<close> of a natural number, for the f-string of the button.\<close>

fun str_nat :: "nat \<Rightarrow> string" where
  "str_nat n =
     (if n < 10 then [char_of (48 + n)]
      else str_nat (n div 10) @ [char_of (48 + n mod 10)])"

declare str_nat.simps [simp del]

definition approved_button :: "PullRequest list \<Rightarrow> ExtensionResultItem" where
  "approved_button approved_prs =
     \<lparr>name = ''Approved Pull Requests'',
      description = ''View '' @ str_nat (length approved_prs) @ '' approved Pull Requests'',
      icon = GITHUB_APPROVED_LOGO,
      on_enter = ExtensionCustomAction APPROVED_PRS None,
      on_alt_enter = None\<rparr>"

text \<open>The item built for one record by the comprehension of \<open>build_pr_items\<close>.\<close>

definition pr_item :: "PrType \<Rightarrow> string \<Rightarrow> PullRequest \<Rightarrow> ExtensionResultItem" where
  "pr_item pr_type usr pr =
     (let icon = (if pr_type = APPROVED then GITHUB_APPROVED_LOGO else GITHUB_LOGO);
          user_icon = (if pr_type = APPROVED then GITHUB_USER_APPROVED_LOGO else GITHUB_USER_LOGO)
      in \<lparr>name = title pr,
          description = repo pr @ [CHR 0x0A] @ url pr,
          icon = (if created_by pr \<noteq> usr then icon else user_icon),
          on_enter = OpenUrlAction (url pr),
          on_alt_enter = Some (ExtensionCustomAction (MULTISELECT pr_type) (Some (url pr)))\<rparr>)"

text \<open>
  The \<open>if\<close> of a comprehension whose condition may raise: the first exception ends the
  comprehension.
\<close>

fun filter_raising :: "('a \<Rightarrow> error + bool) \<Rightarrow> 'a list \<Rightarrow> error + 'a list" where
  "filter_raising p [] = Inr []"
| "filter_raising p (x # xs) =
     (case p x of
        Inl e \<Rightarrow> Inl e
      | Inr b \<Rightarrow>
          (case filter_raising p xs of
             Inl e \<Rightarrow> Inl e
           | Inr ys \<Rightarrow> Inr (if b then x # ys else ys)))"

text \<open>
  \<open>build_pr_items\<close>. Only \<open>GithubError\<close> is caught, and only around \<open>__get_prs\<close>; an
  exception of the predicate leaves the function.
\<close>

definition build_pr_items ::
  "network \<Rightarrow> datetime \<Rightarrow> datetime \<Rightarrow> PrType \<Rightarrow> (PullRequest \<Rightarrow> error + bool) option \<Rightarrow> bool
     \<Rightarrow> controller \<Rightarrow> (error + ExtensionResultItem list) \<times> controller" where
  "build_pr_items net now now_stored pr_type predicate include_approved_button c =
     (case Controller_get_prs net now now_stored c of
        (Inl (GithubError t d), c') \<Rightarrow>
          (Inr [\<lparr>name = t, description = d, icon = ERROR_ICON,
                 on_enter = DoNothingAction, on_alt_enter = None\<rparr>], c')
      | (Inl e, c') \<Rightarrow> (Inl e, c')
      | (Inr (open_prs, approved_prs), c') \<Rightarrow>
          (let relevant_prs = (if pr_type = APPROVED then approved_prs else open_prs)
           in case filter_raising
                     (case predicate of None \<Rightarrow> (\<lambda>pr. Inr True) | Some p \<Rightarrow> p) relevant_prs of
                Inl e \<Rightarrow> (Inl e, c')
              | Inr selected \<Rightarrow>
                  (Inr (map (pr_item pr_type (user c')) selected
                        @ (if include_approved_button \<and> length approved_prs \<noteq> 0
                           then [approved_button approved_prs] else [])),
                   c')))"

text \<open>
  \<open>re.search(pattern, s, re.IGNORECASE)\<close> belongs to Python's library and is a parameter
  \<open>search\<close> of the model: \<open>search pattern s\<close> is \<open>None\<close> where the call raises \<open>re.error\<close>
  (the pattern does not compile), \<open>Some True\<close> where it returns a match object and
  \<open>Some False\<close> where it returns \<open>None\<close>.
\<close>

type_synonym re_search = "string \<Rightarrow> string \<Rightarrow> bool option"

text \<open>The lambda of \<open>KeywordQueryEventListener.on_event\<close>; \<open>or\<close> evaluates its right
  operand only when the left one is falsy.\<close>

definition query_predicate :: "re_search \<Rightarrow> string \<Rightarrow> PullRequest \<Rightarrow> error + bool" where
  "query_predicate search query pr =
     (case search query (title pr) of
        None \<Rightarrow> Inl RegexError
      | Some True \<Rightarrow> Inr True
      | Some False \<Rightarrow>
          (case search query (repo pr) of None \<Rightarrow> Inl RegexError | Some b \<Rightarrow> Inr b))"

record extension =
  multiselect_urls :: "string list"
  github_controller :: controller

text \<open>
  \<open>KeywordQueryEventListener.on_event\<close>; \<open>argument\<close> is the query's argument, \<open>None\<close> when
  the user typed none (\<open>get_argument(default="")\<close>).
\<close>

definition KeywordQuery_on_event ::
  "re_search \<Rightarrow> network \<Rightarrow> datetime \<Rightarrow> datetime \<Rightarrow> string option \<Rightarrow> extension
     \<Rightarrow> (error + ExtensionResultItem list) \<times> extension" where
  "KeywordQuery_on_event search net now now_stored argument ext =
     (let ext1 = ext\<lparr>multiselect_urls := []\<rparr>;
          query = (case argument of None \<Rightarrow> [] | Some q \<Rightarrow> q)
      in case build_pr_items net now now_stored OPEN (Some (query_predicate search query)) True
                (github_controller ext1) of
           (r, c') \<Rightarrow> (r, ext1\<lparr>github_controller := c'\<rparr>))"

section \<open>Example data\<close>

text \<open>The scenario of the specification, with a draft added; the acting user is alice.\<close>

definition P1 :: PullRequest where
  "P1 = \<lparr>repo = ''core'', title = ''Fix login'', url = ''https://gh/core/pull/1'',
         is_draft = False, created_by = ''bob'', created_at = 3, approves = []\<rparr>"

definition P2 :: PullRequest where
  "P2 = \<lparr>repo = ''core'', title = ''Add cache'', url = ''https://gh/core/pull/2'',
         is_draft = False, created_by = ''alice'', created_at = 1,
         approves = [''bob'', ''carol'']\<rparr>"

definition P3 :: PullRequest where
  "P3 = \<lparr>repo = ''web'', title = ''Bump deps'', url = ''https://gh/web/pull/3'',
         is_draft = False, created_by = ''alice'', created_at = 3, approves = []\<rparr>"

definition P4 :: PullRequest where
  "P4 = \<lparr>repo = ''web'', title = ''Docs'', url = ''https://gh/web/pull/4'',
         is_draft = False, created_by = ''dan'', created_at = 2, approves = [''alice'']\<rparr>"

definition P5 :: PullRequest where
  "P5 = \<lparr>repo = ''web'', title = ''WIP'', url = ''https://gh/web/pull/5'',
         is_draft = True, created_by = ''alice'', created_at = 4, approves = []\<rparr>"

definition scenario :: "PullRequest list" where
  "scenario = [P1, P2, P5, P3, P4]"

text \<open>
  An organisation with two repositories. The first has one pull request, approved twice
  by the same reviewer; the request for the pull requests of the second fails.
\<close>

definition pj1 :: pr_json where
  "pj1 = \<lparr>pj_url = ''https://api/repos/core/pulls/1'', pj_head_repo_name = ''core'',
          pj_title = ''Fix login'', pj_html_url = ''https://gh/core/pull/1'',
          pj_draft = False, pj_user_login = ''carol'', pj_created_at = Some 3\<rparr>"

definition built1 :: PullRequest where
  "built1 = \<lparr>repo = ''core'', title = ''Fix login'', url = ''https://gh/core/pull/1'',
             is_draft = False, created_by = ''carol'', created_at = 3,
             approves = [''bob'', ''bob'']\<rparr>"

definition net1 :: network where
  "net1 =
     \<lparr>repos_response = Some (ReposList [''https://api/repos/core'', ''https://api/repos/web'']),
      pulls_response =
        (\<lambda>u. if u = ''https://api/repos/core/pulls'' then Some [pj1] else None),
      reviews_response =
        (\<lambda>u. if u = ''https://api/repos/core/pulls/1/reviews''
             then Some [\<lparr>review_state = ''APPROVED'', review_user_login = ''bob''\<rparr>,
                        \<lparr>review_state = ''COMMENTED'', review_user_login = ''dan''\<rparr>,
                        \<lparr>review_state = ''APPROVED'', review_user_login = ''bob''\<rparr>]
             else None)\<rparr>"

text \<open>A network on which every request fails.\<close>

definition net_down :: network where
  "net_down = \<lparr>repos_response = None, pulls_response = (\<lambda>u. None),
               reviews_response = (\<lambda>u. None)\<rparr>"

text \<open>A controller as \<open>__init__\<close> leaves it, and one holding the scenario's snapshot.\<close>

definition ctl0 :: controller where
  "ctl0 = \<lparr>user = ''alice'', last_request = None, github_client = \<lparr>repos = None\<rparr>,
           fetch_calls = 0\<rparr>"

definition ctl_cached :: controller where
  "ctl_cached = ctl0\<lparr>last_request := Some (0, [P3, P1], [P2, P4])\<rparr>"

text \<open>
  Values of \<open>re.search(pattern, s, re.IGNORECASE)\<close> for the patterns of the examples: the
  pattern \<open>[\<close> does not compile (unterminated character set); the empty pattern and a
  pattern of ASCII letters are found where they occur in \<open>s\<close>, whatever the case of the
  letters. The function is meant for these patterns only.
\<close>

definition ascii_lower :: "char \<Rightarrow> char" where
  "ascii_lower c =
     (if 65 \<le> (of_char c :: nat) \<and> (of_char c :: nat) \<le> 90 then char_of (of_char c + 32 :: nat)
      else c)"

definition sample_search :: re_search where
  "sample_search pattern s =
     (if pattern = ''['' then None
      else Some (sublist (map ascii_lower pattern) (map ascii_lower s)))"

text \<open>The controller after a first refresh over \<open>net1\<close>, stored at clock reading 1.\<close>

definition ctl1 :: controller where
  "ctl1 =
     \<lparr>user = ''alice'', last_request = Some (1, [], [built1]),
      github_client =
        \<lparr>repos = Some (ReposList [''https://api/repos/core'', ''https://api/repos/web''])\<rparr>,
      fetch_calls = 1\<rparr>"

text \<open>
  The controller after a second refresh, stored at clock reading 60000002, during which
  every request failed.
\<close>

definition ctl2 :: controller where
  "ctl2 = ctl1\<lparr>fetch_calls := 2, last_request := Some (60000002, [], [])\<rparr>"

definition ext_cached :: extension where
  "ext_cached = \<lparr>multiselect_urls = [''https://gh/web/pull/4''], github_controller = ctl_cached\<rparr>"

section \<open>Properties of the ordering and partition step\<close>

subsection \<open>Sorting\<close>

lemma insort_key_past:
  "\<forall>y\<in>set ys. \<not> f x \<le> f y \<Longrightarrow> insort_key f x (ys @ zs) = ys @ insort_key f x zs"
  by (induction ys) auto

lemma sort_key_two_groups:
  "sort_key (\<lambda>x. if P x then - 1 else (0::int)) xs = filter P xs @ filter (\<lambda>x. \<not> P x) xs"
proof (induction xs)
  case Nil
  show ?case by simp
next
  case (Cons x xs)
  let ?k = "\<lambda>x. if P x then - 1 else (0::int)"
  show ?case
  proof (cases "P x")
    case True
    then have "insort_key ?k x (filter P xs @ filter (\<lambda>x. \<not> P x) xs)
                 = x # filter P xs @ filter (\<lambda>x. \<not> P x) xs"
      by (intro insort_is_Cons) auto
    with True Cons show ?thesis by simp
  next
    case False
    have "insort_key ?k x (filter P xs @ filter (\<lambda>x. \<not> P x) xs)
            = filter P xs @ insort_key ?k x (filter (\<lambda>x. \<not> P x) xs)"
      using False by (intro insort_key_past) auto
    also have "insort_key ?k x (filter (\<lambda>x. \<not> P x) xs) = x # filter (\<lambda>x. \<not> P x) xs"
      using False by (intro insort_is_Cons) auto
    finally show ?thesis using False Cons by simp
  qed
qed

lemma ordered_prs_groups:
  "ordered_prs u prs =
     filter (\<lambda>pr. created_by pr = u) (sorted_by_date prs)
     @ filter (\<lambda>pr. created_by pr \<noteq> u) (sorted_by_date prs)"
  unfolding ordered_prs_def py_sort_def by (simp add: sort_key_two_groups)

lemma py_sort_reverse_sorted:
  "sorted_wrt (\<lambda>a b. key a \<ge> key b) (py_sort key True xs)"
proof -
  have "sorted (map key (sort_key key (rev xs)))" by simp
  then have "sorted_wrt (\<lambda>a b. key a \<le> key b) (sort_key key (rev xs))"
    by (simp add: sorted_map)
  then show ?thesis
    unfolding py_sort_def by (simp add: sorted_wrt_rev)
qed

lemma py_sort_mset: "mset (py_sort key r xs) = mset xs"
  unfolding py_sort_def by simp

lemma py_sort_set: "set (py_sort key r xs) = set xs"
  unfolding py_sort_def by simp

lemma py_sort_stable:
  "filter (\<lambda>y. key y = k) (py_sort key r xs) = filter (\<lambda>y. key y = k) xs"
  unfolding py_sort_def by (simp add: sort_key_stable rev_filter [symmetric])

lemma sorted_by_date_desc:
  "sorted_wrt (\<lambda>a b. created_at a \<ge> created_at b) (sorted_by_date prs)"
  unfolding sorted_by_date_def by (rule py_sort_reverse_sorted)

lemma precedes_append:
  assumes "i < length (ys @ zs)" "j < length (ys @ zs)"
    and "P ((ys @ zs) ! i)" "\<not> P ((ys @ zs) ! j)"
    and "\<forall>y\<in>set ys. P y" "\<forall>z\<in>set zs. \<not> P z"
  shows "i < j"
proof (rule ccontr)
  assume "\<not> i < j"
  then have ji: "j \<le> i" by simp
  have "\<not> i < length ys"
  proof
    assume "i < length ys"
    with ji have "j < length ys" by simp
    then have "(ys @ zs) ! j \<in> set ys" by (simp add: nth_append)
    with assms show False by blast
  qed
  then have "(ys @ zs) ! i \<in> set zs" using assms(1) by (simp add: nth_append)
  with assms show False by blast
qed

lemma scenario_ordered: "ordered_prs ''alice'' scenario = [P3, P2, P1, P4]"
  by code_simp

lemma scenario_partition: "order_filter_prs ''alice'' scenario = ([P3, P1], [P2, P4])"
  by code_simp

text \<open>
  Claim C1. After lines 192 to 194 the non-draft records are sorted by \<open>created_at\<close>,
  newest first, by a stable sort (a permutation that keeps the original order of the
  records created at the same time \<open>t\<close>), and the second sort then puts the records of the
  user, in that order, before all the others, in that order. Hence in the sequence that is
  partitioned every record of the user precedes every record of somebody else, and each of
  the two groups is non-increasing by \<open>created_at\<close>.
\<close>

theorem C1_ordering:
  "sorted_wrt (\<lambda>a b. created_at a \<ge> created_at b) (sorted_by_date prs)
   \<and> mset (sorted_by_date prs) = mset (non_drafts prs)
   \<and> filter (\<lambda>pr. created_at pr = t) (sorted_by_date prs)
       = filter (\<lambda>pr. created_at pr = t) (non_drafts prs)
   \<and> ordered_prs u prs =
        filter (\<lambda>pr. created_by pr = u) (sorted_by_date prs)
        @ filter (\<lambda>pr. created_by pr \<noteq> u) (sorted_by_date prs)
   \<and> (\<forall>i j. i < length (ordered_prs u prs) \<and> j < length (ordered_prs u prs)
          \<and> created_by (ordered_prs u prs ! i) = u
          \<and> created_by (ordered_prs u prs ! j) \<noteq> u \<longrightarrow> i < j)
   \<and> sorted_wrt (\<lambda>a b. created_at a \<ge> created_at b)
        (filter (\<lambda>pr. created_by pr = u) (ordered_prs u prs))
   \<and> sorted_wrt (\<lambda>a b. created_at a \<ge> created_at b)
        (filter (\<lambda>pr. created_by pr \<noteq> u) (ordered_prs u prs))"
proof -
  let ?s = "sorted_by_date prs"
  let ?own = "\<lambda>pr. created_by pr = u"
  have s: "sorted_wrt (\<lambda>a b. created_at a \<ge> created_at b) ?s"
    by (rule sorted_by_date_desc)
  have m: "mset ?s = mset (non_drafts prs)"
    unfolding sorted_by_date_def by (rule py_sort_mset)
  have st: "filter (\<lambda>pr. created_at pr = t) ?s = filter (\<lambda>pr. created_at pr = t) (non_drafts prs)"
    unfolding sorted_by_date_def by (rule py_sort_stable)
  have g: "ordered_prs u prs = filter ?own ?s @ filter (\<lambda>pr. \<not> ?own pr) ?s"
    by (rule ordered_prs_groups)
  have p: "\<forall>i j. i < length (ordered_prs u prs) \<and> j < length (ordered_prs u prs)
          \<and> ?own (ordered_prs u prs ! i)
          \<and> \<not> ?own (ordered_prs u prs ! j) \<longrightarrow> i < j"
    unfolding g by (intro allI impI, rule precedes_append [where P = ?own]) auto
  have o1: "filter ?own (ordered_prs u prs) = filter ?own ?s"
    unfolding g by simp
  have o2: "filter (\<lambda>pr. \<not> ?own pr) (ordered_prs u prs) = filter (\<lambda>pr. \<not> ?own pr) ?s"
    unfolding g by simp
  have s1: "sorted_wrt (\<lambda>a b. created_at a \<ge> created_at b) (filter ?own (ordered_prs u prs))"
    unfolding o1 using s by (rule sorted_wrt_filter)
  have s2: "sorted_wrt (\<lambda>a b. created_at a \<ge> created_at b)
     (filter (\<lambda>pr. \<not> ?own pr) (ordered_prs u prs))"
    unfolding o2 using s by (rule sorted_wrt_filter)
  from s m st g p s1 s2 show ?thesis by blast
qed

theorem C1_ordering_witness:
  "ordered_prs ''alice'' scenario = [P3, P2, P1, P4]
   \<and> created_by ([P3, P2, P1, P4] ! 1) = ''alice''
   \<and> created_by ([P3, P2, P1, P4] ! 2) \<noteq> ''alice''
   \<and> (1::nat) < 2"
proof -
  have a: "created_by ([P3, P2, P1, P4] ! 1) = ''alice''" by (simp add: P2_def)
  have b: "created_by ([P3, P2, P1, P4] ! 2) \<noteq> ''alice''" by (simp add: P1_def)
  note p = C1_ordering [of scenario 3 "''alice''", THEN conjunct2, THEN conjunct2,
      THEN conjunct2, THEN conjunct2, THEN conjunct1, rule_format, of 1 2]
  have "(1::nat) < 2"
    by (rule p) (simp add: scenario_ordered P1_def P2_def)
  with a b scenario_ordered show ?thesis by blast
qed

subsection \<open>Partition by approval\<close>

lemma set_ordered_prs: "set (ordered_prs u prs) = {pr. pr \<in> set prs \<and> \<not> is_draft pr}"
  unfolding ordered_prs_def sorted_by_date_def non_drafts_def by (auto simp: py_sort_set)

lemma mset_ordered_prs: "mset (ordered_prs u prs) = mset (non_drafts prs)"
  unfolding ordered_prs_def sorted_by_date_def by (simp add: py_sort_mset)

lemma fst_order_filter_prs:
  "fst (order_filter_prs u prs) = filter (\<lambda>pr. \<not> pr_is_approved pr u) (ordered_prs u prs)"
  unfolding order_filter_prs_def in_place_filter_def by simp

lemma snd_order_filter_prs:
  "snd (order_filter_prs u prs) = filter (\<lambda>pr. pr_is_approved pr u) (ordered_prs u prs)"
  unfolding order_filter_prs_def in_place_filter_def by simp

text \<open>
  Claim C2. A non-draft record of the input is in the approved list exactly when it has at
  least two entries in \<open>approves\<close> or the acting user is among them, and in the open list
  exactly when not.
\<close>

theorem C2_approval_partition:
  assumes "pr \<in> set prs" and "\<not> is_draft pr"
  shows "(pr \<in> set (snd (order_filter_prs u prs))
            \<longleftrightarrow> 2 \<le> length (approves pr) \<or> u \<in> set (approves pr))
       \<and> (pr \<in> set (fst (order_filter_prs u prs))
            \<longleftrightarrow> \<not> (2 \<le> length (approves pr) \<or> u \<in> set (approves pr)))"
  using assms
  by (simp add: fst_order_filter_prs snd_order_filter_prs set_ordered_prs pr_is_approved_def)

theorem C2_approval_partition_witness:
  "P2 \<in> set scenario \<and> \<not> is_draft P2
   \<and> 2 \<le> length (approves P2)
   \<and> P2 \<in> set (snd (order_filter_prs ''alice'' scenario))
   \<and> P2 \<notin> set (fst (order_filter_prs ''alice'' scenario))"
  using C2_approval_partition [of P2 scenario "''alice''"]
  by (simp add: scenario_def P2_def)

section \<open>Properties of the fetch\<close>

lemma get_pr_approves_list:
  "reviews_response net (pr_url @ ''/reviews'') = Some reviews
     \<Longrightarrow> get_pr_approves net pr_url
          = Inr (map review_user_login (filter (\<lambda>r. review_state r = ''APPROVED'') reviews))"
  by (simp add: get_pr_approves_def)

lemma count_list_map_filter:
  "count_list (map f (filter P xs)) y = length (filter (\<lambda>x. P x \<and> f x = y) xs)"
  by (induction xs) auto

text \<open>
  Claim C3, evaluated where it fails. The request for the pull requests of the second
  repository fails in its child process; the refresh nevertheless succeeds with the
  records of the first repository only, and the controller stores them. Once the
  repository listing is held by the client, a refresh over a network on which every
  request fails succeeds as well, with no record at all, and replaces the snapshot.
\<close>

theorem C3_partial_refresh:
  "pulls_response net1 (''https://api/repos/web'' @ ''/pulls'') = None
   \<and> Controller_get_prs net1 0 1 ctl0 = (Inr ([], [built1]), ctl1)
   \<and> last_request ctl1 = Some (1, [], [built1])
   \<and> Controller_get_prs net_down 60000001 60000002 ctl1
        = (Inr ([], []), ctl1\<lparr>fetch_calls := 2, last_request := Some (60000002, [], [])\<rparr>)"
proof -
  have a: "pulls_response net1 (''https://api/repos/web'' @ ''/pulls'') = None"
    by (simp add: net1_def)
  have b: "Controller_get_prs net1 0 1 ctl0 = (Inr ([], [built1]), ctl1)"
    by code_simp
  have c: "last_request ctl1 = Some (1, [], [built1])"
    by (simp add: ctl1_def)
  have d: "Controller_get_prs net_down 60000001 60000002 ctl1
        = (Inr ([], []), ctl1\<lparr>fetch_calls := 2, last_request := Some (60000002, [], [])\<rparr>)"
    by code_simp
  from a b c d show ?thesis by blast
qed

text \<open>
  Claim C4 fails as stated: a reviewer whose two reviews are both in state \<open>APPROVED\<close>
  is listed twice in \<open>approves\<close>, so the record has two approvals and is approved for
  any user.
\<close>

theorem C4_reapproval_counterexample:
  "build_pr net1 [] pj1 = Inr [(''https://api/repos/core/pulls/1'', built1)]
   \<and> approves built1 = [''bob'', ''bob'']
   \<and> length (approves built1) = 2
   \<and> pr_is_approved built1 ''alice''"
proof -
  have a: "build_pr net1 [] pj1 = Inr [(''https://api/repos/core/pulls/1'', built1)]"
    by code_simp
  have b: "approves built1 = [''bob'', ''bob'']" by (simp add: built1_def)
  have c: "pr_is_approved built1 ''alice''" by (simp add: pr_is_approved_def b)
  from a b c show ?thesis by simp
qed

text \<open>
  Claim C4, amended. The \<open>approves\<close> of the record built for a pull request is the list
  of the logins of the reviews in state \<open>APPROVED\<close>, in the order of the payload, one
  entry for each such review: a login occurs in it as many times as that reviewer
  approved.
\<close>

theorem C4_approves_list:
  assumes "pj_created_at pr = Some t"
    and "reviews_response net (pj_url pr @ ''/reviews'') = Some reviews"
  shows "get_pr_approves net (pj_url pr)
           = Inr (map review_user_login (filter (\<lambda>r. review_state r = ''APPROVED'') reviews))
       \<and> build_pr net shared_result pr
           = Inr (AList.update (pj_url pr)
                    \<lparr>repo = pj_head_repo_name pr, title = pj_title pr, url = pj_html_url pr,
                     is_draft = pj_draft pr, created_by = pj_user_login pr, created_at = t,
                     approves = map review_user_login
                                  (filter (\<lambda>r. review_state r = ''APPROVED'') reviews)\<rparr>
                    shared_result)
       \<and> (\<forall>login.
             count_list (map review_user_login
                           (filter (\<lambda>r. review_state r = ''APPROVED'') reviews)) login
               = length (filter (\<lambda>r. review_state r = ''APPROVED'' \<and> review_user_login r = login)
                           reviews))"
  using assms
  by (simp add: build_pr_def get_pr_approves_list count_list_map_filter)

theorem C4_approves_list_witness:
  "pj_created_at pj1 = Some 3
   \<and> reviews_response net1 (pj_url pj1 @ ''/reviews'')
        = Some [\<lparr>review_state = ''APPROVED'', review_user_login = ''bob''\<rparr>,
                \<lparr>review_state = ''COMMENTED'', review_user_login = ''dan''\<rparr>,
                \<lparr>review_state = ''APPROVED'', review_user_login = ''bob''\<rparr>]
   \<and> get_pr_approves net1 (pj_url pj1) = Inr [''bob'', ''bob'']
   \<and> count_list [''bob'', ''bob''] ''bob'' = 2"
proof -
  have a: "pj_created_at pj1 = Some 3" by (simp add: pj1_def)
  have b: "reviews_response net1 (pj_url pj1 @ ''/reviews'')
        = Some [\<lparr>review_state = ''APPROVED'', review_user_login = ''bob''\<rparr>,
                \<lparr>review_state = ''COMMENTED'', review_user_login = ''dan''\<rparr>,
                \<lparr>review_state = ''APPROVED'', review_user_login = ''bob''\<rparr>]"
    by (simp add: pj1_def net1_def)
  show ?thesis
    using C4_approves_list [OF a b, of "[]"] a b by simp
qed

section \<open>Properties of the cache\<close>

lemma get_prs_fresh:
  "last_request c = Some (t, snap) \<Longrightarrow> now - t < one_minute
     \<Longrightarrow> Controller_get_prs net now now' c = (Inr snap, c)"
  by (simp add: Controller_get_prs_def)

lemma get_prs_stale:
  "\<not> cache_fresh now c \<Longrightarrow> Controller_get_prs net now now' c = Controller_fetch_prs net now' c"
  by (auto simp: Controller_get_prs_def cache_fresh_def split: option.splits)

lemma fetch_prs_calls:
  "fetch_calls (snd (Controller_fetch_prs net now c)) = Suc (fetch_calls c)"
  by (auto simp: Controller_fetch_prs_def Let_def split: prod.splits sum.splits)

lemma fetch_prs_failure:
  "fst (Github_get_prs net (github_client c)) = Inl e
     \<Longrightarrow> fst (Controller_fetch_prs net now c) = Inl e
         \<and> last_request (snd (Controller_fetch_prs net now c)) = last_request c"
  by (auto simp: Controller_fetch_prs_def Let_def split: prod.splits sum.splits)

lemma fetch_prs_success:
  "Github_get_prs net (github_client c) = (Inr prs, gh')
     \<Longrightarrow> Controller_fetch_prs net now c =
          (Inr (order_filter_prs (user c) prs),
           c\<lparr>github_client := gh', fetch_calls := Suc (fetch_calls c),
             last_request := Some (now, order_filter_prs (user c) prs)\<rparr>)"
  by (simp add: Controller_fetch_prs_def Let_def)

lemma fetch_prs_stores:
  "Controller_fetch_prs net now c = (Inr snap, c1) \<Longrightarrow> last_request c1 = Some (now, snap)"
  by (auto simp: Controller_fetch_prs_def Let_def split: prod.splits sum.splits)

lemma first_refresh: "Controller_get_prs net1 0 1 ctl0 = (Inr ([], [built1]), ctl1)"
  by code_simp

lemma ctl1_refetch: "Github_get_prs net1 (github_client ctl1) = (Inr [built1], github_client ctl1)"
  by code_simp

lemma built1_pipeline: "order_filter_prs ''alice'' [built1] = ([], [built1])"
  by code_simp

text \<open>
  Claim C5. If a call at clock reading \<open>ta\<close> found no fresh entry, succeeded and so stored
  its snapshot (at the later reading \<open>ta'\<close>), then a call at a reading \<open>tb\<close> less than one
  minute after \<open>ta\<close> returns that snapshot and leaves the controller, its count of fetches
  included, as it was. A call that finds no entry, or an entry at least one minute old,
  fetches exactly once, and when the fetch succeeds it returns and stores the fresh
  snapshot.
\<close>

theorem C5_cache_freshness:
  "(\<not> cache_fresh ta ca \<and> Controller_get_prs neta ta ta' ca = (Inr snap, cb)
      \<and> ta \<le> ta' \<and> tb - ta < one_minute
      \<longrightarrow> Controller_get_prs netb tb tb' cb = (Inr snap, cb))
   \<and> (\<not> cache_fresh now c
      \<longrightarrow> fetch_calls (snd (Controller_get_prs net now now' c)) = Suc (fetch_calls c)
        \<and> (\<forall>prs gh'. Github_get_prs net (github_client c) = (Inr prs, gh')
              \<longrightarrow> fst (Controller_get_prs net now now' c) = Inr (order_filter_prs (user c) prs)
                \<and> last_request (snd (Controller_get_prs net now now' c))
                    = Some (now', order_filter_prs (user c) prs)))"
proof (intro conjI impI allI)
  assume a: "\<not> cache_fresh ta ca \<and> Controller_get_prs neta ta ta' ca = (Inr snap, cb)
      \<and> ta \<le> ta' \<and> tb - ta < one_minute"
  then have "Controller_fetch_prs neta ta' ca = (Inr snap, cb)"
    using get_prs_stale [of ta ca neta ta'] by auto
  then have "last_request cb = Some (ta', snap)" by (rule fetch_prs_stores)
  moreover from a have "tb - ta' < one_minute" by simp
  ultimately show "Controller_get_prs netb tb tb' cb = (Inr snap, cb)"
    by (rule get_prs_fresh)
next
  assume "\<not> cache_fresh now c"
  then show "fetch_calls (snd (Controller_get_prs net now now' c)) = Suc (fetch_calls c)"
    by (simp add: get_prs_stale fetch_prs_calls)
next
  fix prs gh'
  assume "\<not> cache_fresh now c" and "Github_get_prs net (github_client c) = (Inr prs, gh')"
  then show "fst (Controller_get_prs net now now' c) = Inr (order_filter_prs (user c) prs)"
    by (simp add: get_prs_stale fetch_prs_success)
next
  fix prs gh'
  assume "\<not> cache_fresh now c" and "Github_get_prs net (github_client c) = (Inr prs, gh')"
  then show "last_request (snd (Controller_get_prs net now now' c))
                    = Some (now', order_filter_prs (user c) prs)"
    by (simp add: get_prs_stale fetch_prs_success)
qed

theorem C5_cache_freshness_witness:
  "\<not> cache_fresh 0 ctl0
   \<and> Controller_get_prs net1 0 1 ctl0 = (Inr ([], [built1]), ctl1)
   \<and> (0::int) \<le> 1 \<and> 59999999 - 0 < one_minute
   \<and> Controller_get_prs net_down 59999999 60000000 ctl1 = (Inr ([], [built1]), ctl1)
   \<and> \<not> cache_fresh 60000001 ctl1
   \<and> Github_get_prs net1 (github_client ctl1) = (Inr [built1], github_client ctl1)
   \<and> fetch_calls (snd (Controller_get_prs net1 60000001 60000002 ctl1)) = Suc (fetch_calls ctl1)
   \<and> last_request (snd (Controller_get_prs net1 60000001 60000002 ctl1))
        = Some (60000002, [], [built1])"
proof -
  have a: "\<not> cache_fresh 0 ctl0" by (simp add: cache_fresh_def ctl0_def)
  have b: "(59999999::int) - 0 < one_minute" by (simp add: one_minute_def)
  have c: "\<not> cache_fresh 60000001 ctl1" by (simp add: cache_fresh_def ctl1_def one_minute_def)
  have u: "user ctl1 = ''alice''" by (simp add: ctl1_def)
  show ?thesis
    using C5_cache_freshness [of 0 ctl0 net1 1 "([], [built1])" ctl1 59999999 net_down 60000000
        60000001 ctl1 net1 60000002]
      a b c first_refresh ctl1_refetch
    by (simp add: built1_pipeline u)
qed

text \<open>
  The one path on which a refresh raises: \<open>get_prs\<close> raises in the parent process, the
  assignment of line 188 is not reached, and the call returns the error with the stored
  entry as it was.
\<close>

lemma raising_fetch_keeps_entry:
  assumes "\<not> cache_fresh now c"
    and "fst (Github_get_prs net (github_client c)) = Inl e"
  shows "fst (Controller_get_prs net now now' c) = Inl e
       \<and> last_request (snd (Controller_get_prs net now now' c)) = last_request c"
  using fetch_prs_failure [OF assms(2), of now'] get_prs_stale [OF assms(1), of net now']
  by simp

text \<open>
  A client that holds a repository list never raises, whatever the network does: the
  requests that are left are all made in child processes.
\<close>

lemma listed_client_never_raises:
  "repos gh = Some (ReposList urls) \<Longrightarrow> fst (Github_get_prs net gh) \<noteq> Inl e"
  by (simp add: Github_get_prs_def Let_def)

text \<open>
  Claim C6, evaluated where it fails. The controller \<open>ctl1\<close> is the one a first refresh
  leaves, holding an entry stored at reading 1. More than a minute later every request
  of the refresh fails. The call returns no error but an empty snapshot, the stored entry
  is replaced by it, and the next call, made while that entry is fresh, serves the empty
  snapshot without fetching, although the network answers again.
\<close>

theorem C6_failed_fetch_overwrites:
  "Controller_get_prs net1 0 1 ctl0 = (Inr ([], [built1]), ctl1)
   \<and> last_request ctl1 = Some (1, [], [built1])
   \<and> \<not> cache_fresh 60000001 ctl1
   \<and> repos_response net_down = None
   \<and> pulls_response net_down ''https://api/repos/core/pulls'' = None
   \<and> pulls_response net_down ''https://api/repos/web/pulls'' = None
   \<and> Controller_get_prs net_down 60000001 60000002 ctl1 = (Inr ([], []), ctl2)
   \<and> last_request ctl2 = Some (60000002, [], [])
   \<and> fetch_calls ctl2 = 2
   \<and> Controller_get_prs net1 60000003 60000004 ctl2 = (Inr ([], []), ctl2)"
proof -
  have a: "Controller_get_prs net1 0 1 ctl0 = (Inr ([], [built1]), ctl1)"
    by code_simp
  have b: "last_request ctl1 = Some (1, [], [built1])"
    by (simp add: ctl1_def)
  have c: "\<not> cache_fresh 60000001 ctl1"
    by (simp add: cache_fresh_def ctl1_def one_minute_def)
  have d: "repos_response net_down = None"
    and e: "pulls_response net_down ''https://api/repos/core/pulls'' = None"
    and f: "pulls_response net_down ''https://api/repos/web/pulls'' = None"
    by (simp_all add: net_down_def)
  have g: "Controller_get_prs net_down 60000001 60000002 ctl1 = (Inr ([], []), ctl2)"
    by code_simp
  have h: "last_request ctl2 = Some (60000002, [], [])" and k: "fetch_calls ctl2 = 2"
    by (simp_all add: ctl2_def)
  have l: "Controller_get_prs net1 60000003 60000004 ctl2 = (Inr ([], []), ctl2)"
    by code_simp
  from a b c d e f g h k l show ?thesis by blast
qed

section \<open>Properties of the two output sequences\<close>

text \<open>
  Claim C7. The open and the approved list have no record in common, each is a
  subsequence of the sorted sequence that was partitioned, and together they hold exactly
  the non-draft records of the input (also counted with multiplicity).
\<close>

theorem C7_partition:
  "set (fst (order_filter_prs u prs)) \<inter> set (snd (order_filter_prs u prs)) = {}
   \<and> subseq (fst (order_filter_prs u prs)) (ordered_prs u prs)
   \<and> subseq (snd (order_filter_prs u prs)) (ordered_prs u prs)
   \<and> set (fst (order_filter_prs u prs)) \<union> set (snd (order_filter_prs u prs))
       = {pr. pr \<in> set prs \<and> \<not> is_draft pr}
   \<and> mset (fst (order_filter_prs u prs)) + mset (snd (order_filter_prs u prs))
       = mset (non_drafts prs)"
proof -
  have d: "set (fst (order_filter_prs u prs)) \<inter> set (snd (order_filter_prs u prs)) = {}"
    by (auto simp: fst_order_filter_prs snd_order_filter_prs)
  have s1: "subseq (fst (order_filter_prs u prs)) (ordered_prs u prs)"
    by (simp add: fst_order_filter_prs)
  have s2: "subseq (snd (order_filter_prs u prs)) (ordered_prs u prs)"
    by (simp add: snd_order_filter_prs)
  have un: "set (fst (order_filter_prs u prs)) \<union> set (snd (order_filter_prs u prs))
       = {pr. pr \<in> set prs \<and> \<not> is_draft pr}"
    by (auto simp: fst_order_filter_prs snd_order_filter_prs set_ordered_prs)
  have "mset (snd (order_filter_prs u prs)) + mset (fst (order_filter_prs u prs))
          = mset (ordered_prs u prs)"
    unfolding fst_order_filter_prs snd_order_filter_prs mset_filter by (rule multiset_partition [symmetric])
  then have ms: "mset (fst (order_filter_prs u prs)) + mset (snd (order_filter_prs u prs))
       = mset (non_drafts prs)"
    by (simp add: mset_ordered_prs add.commute)
  from d s1 s2 un ms show ?thesis by blast
qed

theorem C7_partition_witness:
  "order_filter_prs ''alice'' scenario = ([P3, P1], [P2, P4])
   \<and> set [P3, P1] \<inter> set [P2, P4] = {}
   \<and> set [P3, P1] \<union> set [P2, P4] = {pr. pr \<in> set scenario \<and> \<not> is_draft pr}"
  using C7_partition [of "''alice''" scenario]
  by (simp add: scenario_partition)

text \<open>
  Claim C8. A draft is in neither output list.
\<close>

theorem C8_drafts_excluded:
  "is_draft pr \<Longrightarrow>
     pr \<notin> set (fst (order_filter_prs u prs)) \<and> pr \<notin> set (snd (order_filter_prs u prs))"
  by (simp add: fst_order_filter_prs snd_order_filter_prs set_ordered_prs)

theorem C8_drafts_excluded_witness:
  "is_draft P5 \<and> P5 \<in> set scenario
   \<and> P5 \<notin> set (fst (order_filter_prs ''alice'' scenario))
   \<and> P5 \<notin> set (snd (order_filter_prs ''alice'' scenario))"
  using C8_drafts_excluded [of P5 "''alice''" scenario]
  by (simp add: P5_def scenario_def)

section \<open>Properties of the keyword query\<close>

lemma filter_raising_total:
  "\<forall>x\<in>set xs. p x = Inr (P x) \<Longrightarrow> filter_raising p xs = Inr (filter P xs)"
  by (induction xs) auto

lemma query_predicate_total:
  assumes "\<forall>s. search q s \<noteq> None"
  shows "query_predicate search q pr
          = Inr (search q (title pr) = Some True \<or> search q (repo pr) = Some True)"
proof -
  from assms obtain a b where "search q (title pr) = Some a" and "search q (repo pr) = Some b"
    by (meson option.exhaust)
  then show ?thesis
    by (cases a; cases b) (simp_all add: query_predicate_def)
qed

lemma on_event_render:
  assumes "Controller_get_prs net now now' (github_controller ext) = (Inr (open_prs, approved_prs), c')"
    and "filter_raising (query_predicate search (case argument of None \<Rightarrow> [] | Some q \<Rightarrow> q)) open_prs
           = Inr selected"
  shows "fst (KeywordQuery_on_event search net now now' argument ext)
       = Inr (map (pr_item OPEN (user c')) selected
              @ (if approved_prs \<noteq> [] then [approved_button approved_prs] else []))"
  using assms by (simp add: KeywordQuery_on_event_def build_pr_items_def)

lemma cached_hit:
  "Controller_get_prs net_down 5 6 (github_controller ext_cached)
     = (Inr ([P3, P1], [P2, P4]), ctl_cached)"
  by code_simp

lemma sample_search_WEB: "\<forall>s. sample_search ''WEB'' s \<noteq> None"
  by (simp add: sample_search_def)

lemma sample_filter_WEB:
  "filter (\<lambda>pr. sample_search ''WEB'' (title pr) = Some True
                 \<or> sample_search ''WEB'' (repo pr) = Some True) [P3, P1] = [P3]"
  by code_simp

text \<open>
  Claim C9 fails as stated for a pattern that is not a regular expression: with the
  pattern \<open>[\<close> and a non-empty open list the search raises \<open>re.error\<close>, which nothing
  catches, and no list is returned.
\<close>

theorem C9_query_filter_counterexample:
  "fst (KeywordQuery_on_event sample_search net_down 5 6 (Some ''['') ext_cached) = Inl RegexError"
  by code_simp

text \<open>
  Claim C9, amended. For a pattern on which the search never raises, the items returned
  for a query are those of exactly the open records whose title or whose repository
  matches the pattern (either one suffices), in the order of the open list, followed by
  the button for the approved records when there are any.
\<close>

theorem C9_query_filter:
  assumes "Controller_get_prs net now now' (github_controller ext)
             = (Inr (open_prs, approved_prs), c')"
    and "\<forall>s. search pattern s \<noteq> None"
  shows "fst (KeywordQuery_on_event search net now now' (Some pattern) ext)
       = Inr (map (pr_item OPEN (user c'))
                (filter (\<lambda>pr. search pattern (title pr) = Some True
                               \<or> search pattern (repo pr) = Some True) open_prs)
              @ (if approved_prs \<noteq> [] then [approved_button approved_prs] else []))
     \<and> subseq (filter (\<lambda>pr. search pattern (title pr) = Some True
                               \<or> search pattern (repo pr) = Some True) open_prs) open_prs"
proof -
  have "filter_raising (query_predicate search pattern) open_prs
          = Inr (filter (\<lambda>pr. search pattern (title pr) = Some True
                               \<or> search pattern (repo pr) = Some True) open_prs)"
    using assms(2) by (intro filter_raising_total) (simp add: query_predicate_total)
  then show ?thesis
    using on_event_render [OF assms(1), of search "Some pattern"] by simp
qed

theorem C9_query_filter_witness:
  "Controller_get_prs net_down 5 6 (github_controller ext_cached)
     = (Inr ([P3, P1], [P2, P4]), ctl_cached)
   \<and> (\<forall>s. sample_search ''WEB'' s \<noteq> None)
   \<and> fst (KeywordQuery_on_event sample_search net_down 5 6 (Some ''WEB'') ext_cached)
       = Inr [pr_item OPEN ''alice'' P3, approved_button [P2, P4]]
   \<and> subseq [P3] [P3, P1]"
proof -
  have u: "user ctl_cached = ''alice''" by (simp add: ctl_cached_def ctl0_def)
  note r = C9_query_filter [where search = sample_search and pattern = "''WEB''",
      OF cached_hit sample_search_WEB, unfolded sample_filter_WEB u]
  show ?thesis
    using r cached_hit sample_search_WEB by simp
qed

lemma sample_search_empty: "\<forall>s. sample_search [] s = Some True"
  by (simp add: sample_search_def)

text \<open>
  Claim C10. The empty pattern matches every string, so with the empty pattern (also
  the default when the query has no argument) no open record is filtered out: the items
  are those of all open records, in order.
\<close>

theorem C10_empty_pattern:
  assumes "Controller_get_prs net now now' (github_controller ext)
             = (Inr (open_prs, approved_prs), c')"
    and "\<forall>s. search [] s = Some True"
  shows "filter_raising (query_predicate search []) open_prs = Inr open_prs
     \<and> fst (KeywordQuery_on_event search net now now' None ext)
       = Inr (map (pr_item OPEN (user c')) open_prs
              @ (if approved_prs \<noteq> [] then [approved_button approved_prs] else []))
     \<and> fst (KeywordQuery_on_event search net now now' (Some []) ext)
       = Inr (map (pr_item OPEN (user c')) open_prs
              @ (if approved_prs \<noteq> [] then [approved_button approved_prs] else []))"
proof -
  have "filter_raising (query_predicate search []) open_prs = Inr (filter (\<lambda>pr. True) open_prs)"
    by (rule filter_raising_total) (simp add: query_predicate_def assms(2))
  then have f: "filter_raising (query_predicate search []) open_prs = Inr open_prs"
    by simp
  then show ?thesis
    using on_event_render [OF assms(1), of search None open_prs]
      on_event_render [OF assms(1), of search "Some []" open_prs]
    by simp
qed

theorem C10_empty_pattern_witness:
  "Controller_get_prs net_down 5 6 (github_controller ext_cached)
     = (Inr ([P3, P1], [P2, P4]), ctl_cached)
   \<and> (\<forall>s. sample_search [] s = Some True)
   \<and> fst (KeywordQuery_on_event sample_search net_down 5 6 None ext_cached)
       = Inr [pr_item OPEN ''alice'' P3, pr_item OPEN ''alice'' P1, approved_button [P2, P4]]"
proof -
  have u: "user ctl_cached = ''alice''" by (simp add: ctl_cached_def ctl0_def)
  show ?thesis
    using C10_empty_pattern [where search = sample_search, OF cached_hit sample_search_empty]
      cached_hit sample_search_empty
    by (simp add: u)
qed

end
